theory Spec2Isabelle
  imports Main "HOL-Library.Word"
begin

section \<open>The counter module: simple-wasmer/counter.c\<close>

text \<open>
  The module is one global and two exported functions:
  \<^verbatim>\<open>
  int counter = 0;
  void increment() { counter++; }
  int get_counter() { return counter; }
  \<close>
  It is built with Emscripten for a 32-bit WebAssembly target, where \<open>int\<close> is a 32-bit
  two's complement integer and \<open>counter++\<close> is a load, an \<open>i32.add\<close> of 1 and a store.
  The addition wraps around: it is the addition of \<open>32 word\<close>, and the value a C caller
  sees is \<open>sint\<close> of the word.
\<close>

type_synonym c_int = "32 word"

text \<open>The process-wide state of the module is the global \<open>counter\<close>.\<close>

record state =
  counter :: c_int

text \<open>\<open>int counter = 0;\<close> : the state the module is instantiated with.\<close>

definition init :: state where
  "init = \<lparr>counter = 0\<rparr>"

text \<open>
  A call of an exported function either completes, with its return value and the state
  it leaves, or aborts. Neither body holds an operation that can abort (no division, no
  access through a pointer, no call), so neither definition has an \<open>Inl\<close> branch.
\<close>

datatype error = Trap

type_synonym 'a result = "error + 'a \<times> state"

text \<open>\<open>void increment() { counter++; }\<close>\<close>

definition increment :: "state \<Rightarrow> unit result" where
  "increment s = Inr ((), s\<lparr>counter := counter s + 1\<rparr>)"

text \<open>\<open>int get_counter() { return counter; }\<close>\<close>

definition get_counter :: "state \<Rightarrow> c_int result" where
  "get_counter s = Inr (counter s, s)"

subsection \<open>Sequences of calls\<close>

text \<open>\<open>n\<close> calls of \<open>increment\<close> in a row; an abort ends the sequence.\<close>

primrec increment_n :: "nat \<Rightarrow> state \<Rightarrow> error + state" where
  "increment_n 0 s = Inr s"
| "increment_n (Suc n) s =
     (case increment s of Inl e \<Rightarrow> Inl e | Inr (u, s') \<Rightarrow> increment_n n s')"

text \<open>\<open>n\<close> calls of \<open>increment\<close>, then one call of \<open>get_counter\<close>.\<close>

definition increment_n_then_get :: "nat \<Rightarrow> state \<Rightarrow> c_int result" where
  "increment_n_then_get n s =
     (case increment_n n s of Inl e \<Rightarrow> Inl e | Inr s' \<Rightarrow> get_counter s')"

text \<open>
  The C \<open>int\<close> that a call of \<open>get_counter\<close> handed back: the signed reading of the
  returned word, and nothing when the call aborted.
\<close>

definition returned :: "c_int result \<Rightarrow> int option" where
  "returned r = (case r of Inl e \<Rightarrow> None | Inr (v, s) \<Rightarrow> Some (sint v))"

text \<open>
  \<open>n\<close> calls of \<open>get_counter\<close> in a row, with nothing between them: the values
  returned, in call order, and the state left.
\<close>

primrec get_counter_n :: "nat \<Rightarrow> state \<Rightarrow> error + c_int list \<times> state" where
  "get_counter_n 0 s = Inr ([], s)"
| "get_counter_n (Suc n) s =
     (case get_counter s of
        Inl e \<Rightarrow> Inl e
      | Inr (v, s') \<Rightarrow>
          (case get_counter_n n s' of
             Inl e \<Rightarrow> Inl e
           | Inr (vs, s'') \<Rightarrow> Inr (v # vs, s'')))"

text \<open>
  The module as a transition system. A step is a call of one of the two exported
  functions; \<open>invoke\<close> gives the state the call leaves.
\<close>

datatype call = Increment | Get_counter

fun invoke :: "call \<Rightarrow> state \<Rightarrow> error + state" where
  "invoke Increment s = (case increment s of Inl e \<Rightarrow> Inl e | Inr (u, s') \<Rightarrow> Inr s')"
| "invoke Get_counter s = (case get_counter s of Inl e \<Rightarrow> Inl e | Inr (v, s') \<Rightarrow> Inr s')"

fun run :: "call list \<Rightarrow> state \<Rightarrow> error + state" where
  "run [] s = Inr s"
| "run (c # cs) s = (case invoke c s of Inl e \<Rightarrow> Inl e | Inr s' \<Rightarrow> run cs s')"

text \<open>The states the module can be in: \<open>init\<close>, and every state a completed step leaves.\<close>

inductive reachable :: "state \<Rightarrow> bool" where
  reachable_init: "reachable init"
| reachable_step: "reachable s \<Longrightarrow> invoke c s = Inr s' \<Longrightarrow> reachable s'"

text \<open>
  The signed 32-bit reading of a residue \<open>m\<close> modulo \<open>2 ^ 32\<close>, written out: residues
  below \<open>2 ^ 31\<close> stand for themselves, the others for \<open>m - 2 ^ 32\<close>.
\<close>

definition signed32 :: "int \<Rightarrow> int" where
  "signed32 m = (if m < 2 ^ 31 then m else m - 2 ^ 32)"

section \<open>Properties\<close>

subsection \<open>Helper facts\<close>

text \<open>\<open>n\<close> calls of \<open>increment\<close> always complete, and add \<open>n\<close> in word arithmetic.\<close>

lemma increment_n_eq: "increment_n n s = Inr (s\<lparr>counter := counter s + of_nat n\<rparr>)"
  by (induction n arbitrary: s) (simp_all add: increment_def add.assoc)

lemma increment_n_then_get_eq:
  "increment_n_then_get n s =
     Inr (counter s + of_nat n, s\<lparr>counter := counter s + of_nat n\<rparr>)"
  by (simp add: increment_n_then_get_def increment_n_eq get_counter_def)

text \<open>The written-out signed reading agrees with \<open>sint\<close> on 32-bit words.\<close>

lemma signed32_residue:
  assumes "0 \<le> m" and "m < 2 ^ 32"
  shows "signed32 m = (m + 2 ^ 31) mod 2 ^ 32 - 2 ^ 31"
proof (cases "m < 2 ^ 31")
  case True
  with assms have "(m + 2 ^ 31) mod 2 ^ 32 = m + 2 ^ 31"
    by (intro mod_pos_pos_trivial) simp_all
  with True show ?thesis by (simp add: signed32_def)
next
  case False
  have "(m + 2 ^ 31) mod 2 ^ 32 = (m + 2 ^ 31 - 2 ^ 32) mod 2 ^ 32"
    by (metis mod_diff_right_eq mod_self diff_zero)
  also from False assms have "\<dots> = m + 2 ^ 31 - 2 ^ 32"
    by (intro mod_pos_pos_trivial) simp_all
  finally show ?thesis using False by (simp add: signed32_def)
qed

lemma signed32_mod: "signed32 (x mod 2 ^ 32) = (x + 2 ^ 31) mod 2 ^ 32 - 2 ^ 31"
proof -
  have "signed32 (x mod 2 ^ 32) = (x mod 2 ^ 32 + 2 ^ 31) mod 2 ^ 32 - 2 ^ 31"
    by (rule signed32_residue) simp_all
  then show ?thesis by (simp add: mod_add_left_eq)
qed

lemma sint_add_of_nat:
  "sint ((w :: c_int) + of_nat k) = signed32 ((sint w + int k) mod 2 ^ 32)"
proof -
  have "w + of_nat k = word_of_int (sint w + int k)"
    by simp
  then have "sint (w + of_nat k) = (sint w + int k + 2 ^ 31) mod 2 ^ 32 - 2 ^ 31"
    by (simp only: int_word_sint) simp
  then show ?thesis by (simp only: signed32_mod)
qed

lemma sint_of_nat_small: "N < 2 ^ 31 \<Longrightarrow> sint (of_nat N :: c_int) = int N"
  using sint_add_of_nat [of 0 N] by (simp add: signed32_def)

text \<open>One more than a 32-bit \<open>int\<close>: the successor, except at the largest value.\<close>

lemma sint_succ:
  "sint ((w :: c_int) + 1) =
     (if sint w = 2147483647 then - 2147483648 else sint w + 1)"
proof -
  have lo: "- 2147483648 \<le> sint w" using sint_ge [of w] by simp
  have hi: "sint w < 2147483648" using sint_lt [of w] by simp
  have "sint (w + 1) = signed32 ((sint w + 1) mod 2 ^ 32)"
    using sint_add_of_nat [of w 1] by simp
  with signed32_mod [of "sint w + 1"]
  have eq: "sint (w + 1) = (sint w + 2147483649) mod 4294967296 - 2147483648"
    by (simp add: add.commute)
  show ?thesis
  proof (cases "sint w = 2147483647")
    case True
    with eq show ?thesis by simp
  next
    case False
    with lo hi have "(sint w + 2147483649) mod 4294967296 = sint w + 2147483649"
      by (intro mod_pos_pos_trivial) simp_all
    with eq False show ?thesis by simp
  qed
qed

text \<open>A run of calls completes, and only its \<open>Increment\<close> steps count.\<close>

lemma run_eq:
  "run cs s = Inr (s\<lparr>counter := counter s + of_nat (count_list cs Increment)\<rparr>)"
proof (induction cs arbitrary: s)
  case Nil
  show ?case by simp
next
  case (Cons c cs)
  show ?case
    by (cases c) (simp_all add: Cons.IH increment_def get_counter_def add.assoc)
qed

text \<open>Every value of the counter is reached by enough calls of \<open>increment\<close>.\<close>

lemma reachable_add: "reachable s \<Longrightarrow> reachable (s\<lparr>counter := counter s + of_nat n\<rparr>)"
proof (induction n)
  case 0
  then show ?case by simp
next
  case (Suc n)
  let ?t = "s\<lparr>counter := counter s + of_nat n\<rparr>"
  have "invoke Increment ?t = Inr (s\<lparr>counter := counter s + of_nat (Suc n)\<rparr>)"
    by (simp add: increment_def add.assoc)
  with Suc show ?case by (blast intro: reachable_step)
qed

lemma reachable_any: "reachable (s :: state)"
proof -
  have "reachable (init\<lparr>counter := counter init + of_nat (unat (counter s))\<rparr>)"
    by (rule reachable_add) (rule reachable_init)
  then show ?thesis by (cases s) (simp add: init_def)
qed

subsection \<open>The initial state\<close>

text \<open>
  Claim C2: in the initial state, before any call of \<open>increment\<close>, \<open>get_counter\<close>
  returns 0 (and leaves the initial state).
\<close>

theorem get_counter_init:
  "get_counter init = Inr (0, init) \<and> returned (get_counter init) = Some 0"
  by (simp add: get_counter_def init_def returned_def)

subsection \<open>Counting from the initial state\<close>

text \<open>
  Claim C1, amended: for every natural number \<open>N\<close> below \<open>2 ^ 31\<close>, after exactly \<open>N\<close>
  calls of \<open>increment\<close> from the initial state, with no other operation, a call of
  \<open>get_counter\<close> returns \<open>N\<close>. The bound is needed: the counter is a 32-bit \<open>int\<close>, and
  at \<open>N = 2 ^ 31\<close> the value returned is not \<open>N\<close>.
\<close>

theorem increment_n_then_get_init:
  "N < 2 ^ 31 \<Longrightarrow> returned (increment_n_then_get N init) = Some (int N)"
  by (simp add: increment_n_then_get_eq returned_def init_def sint_of_nat_small)

theorem increment_n_then_get_init_witness:
  "(7 :: nat) < 2 ^ 31 \<and> returned (increment_n_then_get 7 init) = Some (int 7)"
  using increment_n_then_get_init [of 7] by simp

theorem increment_n_then_get_init_counterexample:
  "returned (increment_n_then_get 2147483648 init) \<noteq> Some (int 2147483648)"
  by (simp add: increment_n_then_get_eq returned_def init_def)

text \<open>
  Claim C8: from the initial state, after one call of \<open>increment\<close>, \<open>get_counter\<close>
  returns 1; after five calls of \<open>increment\<close>, \<open>get_counter\<close> returns 5.
\<close>

theorem scenarios_one_and_five:
  "returned (increment_n_then_get 1 init) = Some 1 \<and>
   returned (increment_n_then_get 5 init) = Some 5"
  by (simp add: increment_n_then_get_def eval_nat_numeral increment_def get_counter_def
      returned_def init_def)

text \<open>
  Claim C9: the counter is a 32-bit signed integer that wraps: after exactly \<open>2 ^ 31\<close>
  calls of \<open>increment\<close> from the initial state, \<open>get_counter\<close> returns \<open>- 2 ^ 31\<close>, a
  negative value, and not \<open>2 ^ 31\<close>.
\<close>

theorem wraps_after_2_31:
  "returned (increment_n_then_get (2 ^ 31) init) = Some (- (2 ^ 31)) \<and>
   returned (increment_n_then_get (2 ^ 31) init) \<noteq> Some (2 ^ 31)"
  by (simp add: increment_n_then_get_eq returned_def init_def)

subsection \<open>One call of \<open>increment\<close>\<close>

text \<open>
  Claim C3: every call of \<open>increment\<close> changes the counter by exactly \<open>+ 1\<close>, with
  the target's wrap-around on overflow: the new value is the signed 32-bit reading of
  (old value + 1) mod \<open>2 ^ 32\<close>. The function takes nothing but the state and returns no
  value (the unit \<open>()\<close>).
\<close>

theorem increment_effect:
  "\<exists>s'. increment s = Inr ((), s') \<and>
        s' = s\<lparr>counter := counter s + 1\<rparr> \<and>
        sint (counter s') = signed32 ((sint (counter s) + 1) mod 2 ^ 32)"
  using sint_add_of_nat [of "counter s" 1] by (simp add: increment_def)

text \<open>
  Claim C10: for every state \<open>s\<close>, not only the initial one, and every natural number
  \<open>k\<close>, \<open>k\<close> calls of \<open>increment\<close> followed by \<open>get_counter\<close> return the signed 32-bit
  reading of (\<open>s\<close> + \<open>k\<close>) mod \<open>2 ^ 32\<close>. Only the number of \<open>increment\<close> calls matters:
  whatever the order in which a sequence of calls makes them, it leaves the state that
  the same number of \<open>increment\<close> calls in a row leaves.
\<close>

theorem increment_n_then_get_any:
  "returned (increment_n_then_get k s) =
     Some (signed32 ((sint (counter s) + int k) mod 2 ^ 32)) \<and>
   run cs s = increment_n (count_list cs Increment) s"
  by (simp add: increment_n_then_get_eq returned_def sint_add_of_nat run_eq increment_n_eq)

subsection \<open>Calls of \<open>get_counter\<close>\<close>

text \<open>
  Claim C4: for every state, a call of \<open>get_counter\<close> leaves the state as it was: the
  read has no side effect.
\<close>

theorem get_counter_frame: "\<exists>v. get_counter s = Inr (v, s)"
  by (simp add: get_counter_def)

text \<open>
  Claim C5: for every state, any number of consecutive calls of \<open>get_counter\<close>, with no
  call of \<open>increment\<close> between them, all return the same value (the counter of the
  state they started in), and leave that state.
\<close>

theorem get_counter_n_same: "get_counter_n n s = Inr (replicate n (counter s), s)"
  by (induction n) (simp_all add: get_counter_def)

subsection \<open>No failure\<close>

text \<open>
  Claim C6: neither \<open>increment\<close> nor \<open>get_counter\<close> can fail: in every state both
  complete with a result, and neither returns an error value.
\<close>

theorem no_error:
  "(\<exists>s'. increment s = Inr ((), s')) \<and> (\<exists>v s'. get_counter s = Inr (v, s')) \<and>
   (\<forall>e. increment s \<noteq> Inl e) \<and> (\<forall>e. get_counter s \<noteq> Inl e)"
  by (simp add: increment_def get_counter_def)

subsection \<open>Steps of the module\<close>

text \<open>
  Claim C7, amended: in every reachable state, every step of the module completes and
  is either an \<open>increment\<close> step, which adds 1 to the counter in 32-bit arithmetic (the
  value grows by exactly 1, except at \<open>2 ^ 31 - 1\<close>, where it becomes \<open>- 2 ^ 31\<close>), or a
  \<open>get_counter\<close> step, which leaves the state unchanged; nothing but \<open>increment\<close>
  changes the counter. As stated without the exception the claim fails: the state with
  counter \<open>2 ^ 31 - 1\<close> is reachable, and \<open>increment\<close> lowers the value there.
\<close>

theorem step_effect:
  "reachable s \<Longrightarrow>
   \<exists>s'. invoke c s = Inr s' \<and>
     ((c = Increment \<and> s' = s\<lparr>counter := counter s + 1\<rparr> \<and>
       sint (counter s') =
         (if sint (counter s) = 2147483647 then - 2147483648 else sint (counter s) + 1)) \<or>
      (c = Get_counter \<and> s' = s))"
  by (cases c) (simp_all add: increment_def get_counter_def sint_succ)

theorem step_effect_witness:
  "reachable init \<and> invoke Increment init = Inr \<lparr>counter = 1\<rparr> \<and>
   sint (counter \<lparr>counter = 1\<rparr>) = sint (counter init) + 1"
proof -
  have r: "reachable init"
    by (rule reachable_init)
  from step_effect [OF r, of Increment] r show ?thesis
    by (simp add: init_def increment_def)
qed

theorem step_effect_counterexample:
  "reachable \<lparr>counter = 2147483647\<rparr> \<and>
   invoke Increment \<lparr>counter = 2147483647\<rparr> = Inr \<lparr>counter = 2147483648\<rparr> \<and>
   sint (counter \<lparr>counter = 2147483648\<rparr>) < sint (counter \<lparr>counter = 2147483647\<rparr>)"
  by (simp add: reachable_any increment_def)

end
